theory Spec2Isabelle
  imports Main
begin

section \<open>linear-utils.ts: data model\<close>

text \<open>
  The script \<^verbatim>\<open>src/linear-utils.ts\<close> reads a branch name, looks the issue it names up
  in the Linear tracker, advances its workflow state and assigns it. The entities below
  are the parts of the tracker's objects that the script reads.

  Strings are \<^typ>\<open>string\<close>; \<^verbatim>\<open>split\<close> on an ASCII separator cuts a UTF-8 byte string
  where it cuts the JavaScript string. \<^verbatim>\<open>String.prototype.toUpperCase\<close> is the run-time's
  Unicode case mapping: it is not code of the script, and every function that needs it
  takes it as the parameter \<open>toUpperCase\<close>. \<open>ascii_toUpperCase\<close> is what it does on
  ASCII text, for evaluating examples.
\<close>

record WorkflowState =
  ws_id :: string
  ws_name :: string
  ws_type :: string

record Team =
  team_id :: string
  draftWorkflowState :: "WorkflowState option"

record User =
  user_id :: string
  displayName :: string

record Issue =
  issue_id :: string
  issue_state :: "WorkflowState option"
  issue_team :: "Team option"
  issue_assignee :: "User option"

record Organization =
  gitBranchFormat :: "string option"

record BranchSpec =
  assignee :: "string option"
  issueIdentifier :: string

text \<open>The partial object passed to \<^verbatim>\<open>issue.update\<close>: an absent key is \<open>None\<close>.\<close>

record IssueUpdateInput =
  stateId :: "string option"
  assigneeId :: "string option"

text \<open>
  The errors the script throws, named as the specification names them; the
  \<^verbatim>\<open>TypeError\<close> of the run-time; and the two ways a call of the client can fail under
  the script: the tracker does not know the issue, or the request is rejected.
  \<^item> \<open>IncompatibleBranchFormat\<close>: \<^verbatim>\<open>new Error('IncompatibleBranchFormat')\<close>;
  \<^item> \<open>MissingTeam\<close>: \<^verbatim>\<open>new Error('Issue does not belong to a Team')\<close>;
  \<^item> \<open>MissingDraftStateOrIssueState\<close>:
    \<^verbatim>\<open>new Error('Team does not have draft state OR issue does not have state')\<close>;
  \<^item> \<open>AssigneeResolutionFailed\<close>:
    \<^verbatim>\<open>new Error('Unable to get User information to assign')\<close>.
\<close>

datatype api_call =
    NewLinearClient "string option"
  | GetOrganization
  | GetIssue string
  | GetIssueState string
  | GetIssueTeam string
  | GetTeamDraftWorkflowState string
  | GetIssueAssignee string
  | QueryUsers string
  | UpdateIssue string IssueUpdateInput

datatype error =
    IncompatibleBranchFormat
  | MissingTeam
  | MissingDraftStateOrIssueState
  | AssigneeResolutionFailed
  | TypeError
  | EntityNotFound
  | RequestRejected api_call

section \<open>Branch-name parser\<close>

text \<open>
  \<^verbatim>\<open>s.split(c)\<close> for a one-character separator: the pieces between the occurrences of
  \<open>c\<close>, one more piece than there are occurrences; the empty string gives one empty piece.
\<close>

fun split :: "char \<Rightarrow> string \<Rightarrow> string list" where
  "split c [] = [[]]"
| "split c (x # xs) =
     (if x = c then [] # split c xs
      else (case split c xs of [] \<Rightarrow> [[x]] | p # ps \<Rightarrow> (x # p) # ps))"

definition ascii_toUpperCase :: "string \<Rightarrow> string" where
  "ascii_toUpperCase s =
     map (\<lambda>c. let n = (of_char c :: nat) in
               if 97 \<le> n \<and> n \<le> 122 then char_of (n - 32) else c) s"

definition supportedFormat :: string where
  "supportedFormat = ''{username}/{issueIdentifier}-{issueTitle}''"

text \<open>
  \<^verbatim>\<open>collectAssigneeIssueIdentifierFromBranchName(org, branch)\<close>, lines 103-135. The two
  locals start as \<^verbatim>\<open>null\<close> and the last check of \<open>issueIdentifier\<close> is kept.
\<close>

definition collectAssigneeIssueIdentifierFromBranchName ::
  "(string \<Rightarrow> string) \<Rightarrow> Organization \<Rightarrow> string \<Rightarrow> error + BranchSpec" where
  "collectAssigneeIssueIdentifierFromBranchName toUpperCase org branch =
     (if gitBranchFormat org = Some supportedFormat then
        (let slashParts = split CHR ''/'' branch in
         if length slashParts \<noteq> 2 then Inl IncompatibleBranchFormat
         else
           (let assignee = Some (slashParts ! 0);
                idTitleParts = split CHR ''-'' (slashParts ! 1) in
            if length idTitleParts < 2 then Inl IncompatibleBranchFormat
            else
              (let issueIdentifier =
                     Some (toUpperCase (idTitleParts ! 0) @ ''-'' @ idTitleParts ! 1) in
               case issueIdentifier of
                 None \<Rightarrow> Inl IncompatibleBranchFormat
               | Some i \<Rightarrow> Inr \<lparr>assignee = assignee, issueIdentifier = i\<rparr>)))
      else Inl IncompatibleBranchFormat)"

text \<open>
  The specification's words for the pieces of a branch name: the segment before the first
  occurrence of a character, and what follows that occurrence.
\<close>

fun segment_before :: "char \<Rightarrow> string \<Rightarrow> string" where
  "segment_before c [] = []"
| "segment_before c (x # xs) = (if x = c then [] else x # segment_before c xs)"

fun segment_after :: "char \<Rightarrow> string \<Rightarrow> string" where
  "segment_after c [] = []"
| "segment_after c (x # xs) = (if x = c then xs else segment_after c xs)"

section \<open>The tracker seen through its client\<close>

text \<open>
  \<open>LinearClient\<close> is what the tracker answers to the client's requests: the organization,
  the issues by identifier, the users, and \<open>rejects\<close>, which says of each request whether
  the tracker (or the transport) refuses it. An issue is the snapshot that
  \<^verbatim>\<open>lc.issue\<close> returned: its relations are read from it, and \<^verbatim>\<open>issue.update\<close> does
  not change it. The script never reads back what it wrote, so writes are only recorded.

  A promise is a function of the trace of requests made so far: it returns the settled
  value (\<open>Inl\<close> a rejection) and the trace extended by the requests it made. What is
  written with \<^verbatim>\<open>console.log\<close> is left out.
\<close>

record LinearClient =
  organization :: Organization
  issues :: "string \<rightharpoonup> Issue"
  users :: "User list"
  rejects :: "api_call \<Rightarrow> bool"

type_synonym 'a promise = "api_call list \<Rightarrow> (error + 'a) \<times> api_call list"

definition resolve :: "'a \<Rightarrow> 'a promise" where
  "resolve v trace = (Inr v, trace)"

definition reject :: "error \<Rightarrow> 'a promise" where
  "reject e trace = (Inl e, trace)"

definition await :: "'a promise \<Rightarrow> ('a \<Rightarrow> 'b promise) \<Rightarrow> 'b promise" where
  "await p k trace =
     (case p trace of
        (Inl e, trace') \<Rightarrow> (Inl e, trace')
      | (Inr v, trace') \<Rightarrow> k v trace')"

definition request :: "LinearClient \<Rightarrow> api_call \<Rightarrow> 'a \<Rightarrow> 'a promise" where
  "request lc c answer trace =
     (if rejects lc c then Inl (RequestRejected c) else Inr answer, trace @ [c])"

fun is_update :: "api_call \<Rightarrow> bool" where
  "is_update (UpdateIssue i u) = True"
| "is_update _ = False"

fun is_user_lookup :: "api_call \<Rightarrow> bool" where
  "is_user_lookup (QueryUsers n) = True"
| "is_user_lookup _ = False"

text \<open>
  \<^verbatim>\<open>newLinearClient()\<close>, lines 18-25, with \<^verbatim>\<open>process.env.LINEAR_API_KEY\<close> as its
  argument: the key is passed on when it is truthy (present and not empty).
\<close>

definition newLinearClient :: "string option \<Rightarrow> LinearClient \<Rightarrow> LinearClient promise" where
  "newLinearClient apiKey tracker =
     (let params = (case apiKey of None \<Rightarrow> None
                    | Some k \<Rightarrow> if k \<noteq> [] then Some k else None)
      in request tracker (NewLinearClient params) tracker)"

definition getCurrentOrganization :: "LinearClient \<Rightarrow> Organization promise" where
  "getCurrentOrganization lc = request lc GetOrganization (organization lc)"

text \<open>\<^verbatim>\<open>lc.issue(identifier)\<close>: an identifier the tracker does not know is rejected.\<close>

definition lc_issue :: "LinearClient \<Rightarrow> string \<Rightarrow> Issue promise" where
  "lc_issue lc identifier =
     await (request lc (GetIssue identifier) (issues lc identifier))
       (\<lambda>found. case found of None \<Rightarrow> reject EntityNotFound | Some issue \<Rightarrow> resolve issue)"

text \<open>
  \<^verbatim>\<open>lc.users({ filter: { displayName: { eq: displayName } } })\<close>: the users whose display
  name equals the given one.
\<close>

definition lc_users_by_displayName :: "LinearClient \<Rightarrow> string \<Rightarrow> User list promise" where
  "lc_users_by_displayName lc name =
     request lc (QueryUsers name) (filter (\<lambda>u. displayName u = name) (users lc))"

section \<open>Workflow advancer\<close>

text \<open>\<^verbatim>\<open>maybeUpdateIssueToTeamDraftState(lc, issueIdentifier)\<close>, lines 48-67.\<close>

definition maybeUpdateIssueToTeamDraftState :: "LinearClient \<Rightarrow> string \<Rightarrow> Issue promise" where
  "maybeUpdateIssueToTeamDraftState lc identifier =
     await (lc_issue lc identifier) (\<lambda>issue.
     await (request lc (GetIssueState (issue_id issue)) (issue_state issue)) (\<lambda>issueState.
     await (request lc (GetIssueTeam (issue_id issue)) (issue_team issue)) (\<lambda>team.
       case team of
         None \<Rightarrow> reject MissingTeam
       | Some t \<Rightarrow>
           await (request lc (GetTeamDraftWorkflowState (team_id t)) (draftWorkflowState t))
             (\<lambda>teamDraftState.
                case (teamDraftState, issueState) of
                  (Some d, Some s) \<Rightarrow>
                    if ws_type s \<in> set [''triage'', ''backlog'', ''unstarted''] then
                      await (request lc
                               (UpdateIssue (issue_id issue)
                                  \<lparr>stateId = Some (ws_id d), assigneeId = None\<rparr>) ())
                        (\<lambda>_. resolve issue)
                    else resolve issue
                | _ \<Rightarrow> reject MissingDraftStateOrIssueState))))"

section \<open>Assignee setter\<close>

text \<open>\<^verbatim>\<open>getUserFromDisplayName(lc, displayName)\<close>, lines 91-101.\<close>

definition getUserFromDisplayName :: "LinearClient \<Rightarrow> string \<Rightarrow> User option promise" where
  "getUserFromDisplayName lc name =
     await (lc_users_by_displayName lc name) (\<lambda>nodes.
       if length nodes \<noteq> 1 then resolve None else resolve (Some (nodes ! 0)))"

text \<open>
  \<^verbatim>\<open>maybeSetIssueAssignee(lc, issue, assigneeName)\<close>, lines 69-89. \<^verbatim>\<open>!assigneeName\<close>
  holds of \<^verbatim>\<open>null\<close> and of the empty string.
\<close>

definition maybeSetIssueAssignee ::
  "LinearClient \<Rightarrow> Issue \<Rightarrow> string option \<Rightarrow> Issue promise" where
  "maybeSetIssueAssignee lc issue assigneeName =
     (case assigneeName of
        None \<Rightarrow> resolve issue
      | Some name \<Rightarrow>
          if name = [] then resolve issue
          else
            await (request lc (GetIssueAssignee (issue_id issue)) (issue_assignee issue))
              (\<lambda>current.
                 case current of
                   None \<Rightarrow>
                     await (getUserFromDisplayName lc name) (\<lambda>user.
                       case user of
                         None \<Rightarrow> reject AssigneeResolutionFailed
                       | Some u \<Rightarrow>
                           await (request lc
                                    (UpdateIssue (issue_id issue)
                                       \<lparr>stateId = None, assigneeId = Some (user_id u)\<rparr>) ())
                             (\<lambda>_. resolve issue))
                 | Some _ \<Rightarrow> resolve issue))"

section \<open>Orchestrator and entry point\<close>

text \<open>\<^verbatim>\<open>onCreateBranch(lc, branchName)\<close>, lines 35-46.\<close>

definition onCreateBranch ::
  "(string \<Rightarrow> string) \<Rightarrow> LinearClient \<Rightarrow> string \<Rightarrow> Issue promise" where
  "onCreateBranch toUpperCase lc branchName =
     await (getCurrentOrganization lc) (\<lambda>org.
       case collectAssigneeIssueIdentifierFromBranchName toUpperCase org branchName of
         Inl e \<Rightarrow> reject e
       | Inr spec \<Rightarrow>
           await (maybeUpdateIssueToTeamDraftState lc (issueIdentifier spec)) (\<lambda>issue.
             maybeSetIssueAssignee lc issue (assignee spec)))"

text \<open>
  The cast \<^verbatim>\<open>args.branchName as string\<close> is not checked. With no branch name the call
  is \<^verbatim>\<open>onCreateBranch(lc, undefined)\<close>: after the organization is fetched, the parser
  either refuses the format or throws a \<^verbatim>\<open>TypeError\<close> at \<^verbatim>\<open>branch.split\<close>.
\<close>

definition onCreateBranch_undefined :: "LinearClient \<Rightarrow> Issue promise" where
  "onCreateBranch_undefined lc =
     await (getCurrentOrganization lc) (\<lambda>org.
       if gitBranchFormat org = Some supportedFormat then reject TypeError
       else reject IncompatibleBranchFormat)"

text \<open>
  The parsed arguments: \<open>positional\<close> is the key \<^verbatim>\<open>_\<close> of yargs, the positional
  commands.
\<close>

record Arguments =
  positional :: "string list"
  branchName :: "string option"

text \<open>
  How the process ends: \<^verbatim>\<open>process.exit(n)\<close>; every promise fulfilled; or a promise
  rejected that nothing handles (\<^verbatim>\<open>main\<close> is called without \<^verbatim>\<open>catch\<close>, and
  \<^verbatim>\<open>onCreateBranch\<close> without \<^verbatim>\<open>await\<close>), which is the failure the run-time reports.
\<close>

datatype outcome = Exit nat | Completed | UnhandledRejection error


text \<open>
  \<^verbatim>\<open>main(args)\<close>, lines 137-150, run to the end of the process, with the environment's
  \<^verbatim>\<open>LINEAR_API_KEY\<close> and the tracker as further arguments.
\<close>

definition main ::
  "(string \<Rightarrow> string) \<Rightarrow> string option \<Rightarrow> LinearClient \<Rightarrow> Arguments \<Rightarrow>
   api_call list \<Rightarrow> outcome \<times> api_call list" where
  "main toUpperCase apiKey tracker args trace =
     (if length (positional args) \<noteq> 1 then (Exit 1, trace)
      else
        (case newLinearClient apiKey tracker trace of
           (Inl e, t1) \<Rightarrow> (UnhandledRejection e, t1)
         | (Inr lc, t1) \<Rightarrow>
             (case getCurrentOrganization lc t1 of
                (Inl e, t2) \<Rightarrow> (UnhandledRejection e, t2)
              | (Inr org, t2) \<Rightarrow>
                  (let command = positional args ! 0 in
                   if command = ''on-create-branch'' then
                     (case (case branchName args of
                              Some b \<Rightarrow> onCreateBranch toUpperCase lc b
                            | None \<Rightarrow> onCreateBranch_undefined lc) t2 of
                        (Inl e, t3) \<Rightarrow> (UnhandledRejection e, t3)
                      | (Inr issue, t3) \<Rightarrow> (Completed, t3))
                   else (Completed, t2)))))"


section \<open>An example tracker\<close>

text \<open>
  The end-to-end scenario of the specification: issue \<open>ENG-42\<close> in triage, unassigned,
  in a team whose draft state is \<open>Ready\<close>; a user \<open>bob\<close>; and a second issue, already
  started and assigned to \<open>alice\<close>. The tracker answers every request.
\<close>

definition rejects_nothing :: "api_call \<Rightarrow> bool" where
  "rejects_nothing c = False"

definition state_triage :: WorkflowState where
  "state_triage = \<lparr>ws_id = ''s-triage'', ws_name = ''Triage'', ws_type = ''triage''\<rparr>"

definition state_ready :: WorkflowState where
  "state_ready = \<lparr>ws_id = ''s-ready'', ws_name = ''Ready'', ws_type = ''unstarted''\<rparr>"

definition state_started :: WorkflowState where
  "state_started = \<lparr>ws_id = ''s-started'', ws_name = ''In Progress'', ws_type = ''started''\<rparr>"

definition team_eng :: Team where
  "team_eng = \<lparr>team_id = ''t-eng'', draftWorkflowState = Some state_ready\<rparr>"

definition team_ops :: Team where
  "team_ops = \<lparr>team_id = ''t-ops'', draftWorkflowState = None\<rparr>"

definition user_alice :: User where
  "user_alice = \<lparr>user_id = ''u-alice'', displayName = ''alice''\<rparr>"

definition user_bob :: User where
  "user_bob = \<lparr>user_id = ''u-bob'', displayName = ''bob''\<rparr>"

definition issue_eng42 :: Issue where
  "issue_eng42 = \<lparr>issue_id = ''i-42'', issue_state = Some state_triage,
                   issue_team = Some team_eng, issue_assignee = None\<rparr>"

definition issue_eng7 :: Issue where
  "issue_eng7 = \<lparr>issue_id = ''i-7'', issue_state = Some state_started,
                  issue_team = Some team_eng, issue_assignee = Some user_alice\<rparr>"

definition issue_ops1 :: Issue where
  "issue_ops1 = \<lparr>issue_id = ''i-1'', issue_state = Some state_triage,
                  issue_team = Some team_ops, issue_assignee = None\<rparr>"

definition issue_lost1 :: Issue where
  "issue_lost1 = \<lparr>issue_id = ''i-0'', issue_state = Some state_triage,
                   issue_team = None, issue_assignee = None\<rparr>"

definition org_supported :: Organization where
  "org_supported = \<lparr>gitBranchFormat = Some supportedFormat\<rparr>"

definition tracker :: LinearClient where
  "tracker = \<lparr>organization = org_supported,
               issues = [''ENG-42'' \<mapsto> issue_eng42, ''ENG-7'' \<mapsto> issue_eng7,
                         ''OPS-1'' \<mapsto> issue_ops1, ''LOST-1'' \<mapsto> issue_lost1],
               users = [user_alice, user_bob],
               rejects = rejects_nothing\<rparr>"

definition args_on_create_branch :: "string \<Rightarrow> Arguments" where
  "args_on_create_branch b = \<lparr>positional = [''on-create-branch''], branchName = Some b\<rparr>"

section \<open>Properties of the parser\<close>

lemma split_not_Nil: "split c s \<noteq> []"
  by (induction s) (auto split: list.splits)

lemma length_split: "length (split c s) = Suc (count_list s c)"
  by (induction s) (auto split: list.splits simp: split_not_Nil)

lemma split_first: "split c s ! 0 = segment_before c s"
  by (induction s) (auto split: list.splits simp: split_not_Nil)

lemma split_absent: "c \<notin> set s \<Longrightarrow> split c s = [s]"
  by (induction s) auto

lemma split_tail: "c \<in> set s \<Longrightarrow> tl (split c s) = split c (segment_after c s)"
  by (induction s) (auto split: list.splits simp: split_not_Nil split_absent)

lemma split_second: "c \<in> set s \<Longrightarrow> split c s ! 1 = segment_before c (segment_after c s)"
proof -
  assume a: "c \<in> set s"
  have "split c s ! 1 = tl (split c s) ! 0"
    by (cases "split c s") (simp_all add: split_not_Nil)
  then show ?thesis
    using a by (simp add: split_tail split_first)
qed

lemma count_list_pos: "0 < count_list s c \<longleftrightarrow> c \<in> set s"
  by (induction s) auto

lemma count_one_after:
  "count_list s c = 1 \<Longrightarrow> split c s = [segment_before c s, segment_after c s]"
proof (induction s)
  case Nil
  then show ?case by simp
next
  case (Cons x xs)
  show ?case
  proof (cases "x = c")
    case True
    with Cons.prems have "c \<notin> set xs"
      using count_list_pos [of xs c] by simp
    with True show ?thesis by (simp add: split_absent)
  next
    case False
    with Cons show ?thesis by simp
  qed
qed

lemma segment_before_append:
  "c \<notin> set a \<Longrightarrow> segment_before c (a @ c # r) = a"
  by (induction a) auto

lemma segment_after_append:
  "c \<notin> set a \<Longrightarrow> segment_after c (a @ c # r) = r"
  by (induction a) auto

lemma segment_before_whole:
  "c \<notin> set a \<Longrightarrow> segment_before c a = a"
  by (induction a) auto

lemma parse_by_segments:
  assumes fmt: "gitBranchFormat org = Some supportedFormat"
      and one: "count_list branch CHR ''/'' = 1"
      and dash: "CHR ''-'' \<in> set (segment_after CHR ''/'' branch)"
  shows "collectAssigneeIssueIdentifierFromBranchName up org branch =
           Inr \<lparr>assignee = Some (segment_before CHR ''/'' branch),
                issueIdentifier =
                  up (segment_before CHR ''-'' (segment_after CHR ''/'' branch)) @ ''-'' @
                  segment_before CHR ''-''
                    (segment_after CHR ''-'' (segment_after CHR ''/'' branch))\<rparr>"
proof -
  let ?seg = "segment_after CHR ''/'' branch"
  have parts: "split CHR ''/'' branch = [segment_before CHR ''/'' branch, ?seg]"
    using one by (rule count_one_after)
  have len: "\<not> length (split CHR ''-'' ?seg) < 2"
    using dash count_list_pos [of ?seg "CHR ''-''"] by (simp add: length_split)
  have p0: "split CHR ''-'' ?seg ! 0 = segment_before CHR ''-'' ?seg"
    by (rule split_first)
  have p1: "split CHR ''-'' ?seg ! 1 =
              segment_before CHR ''-'' (segment_after CHR ''-'' ?seg)"
    using dash by (rule split_second)
  show ?thesis
    unfolding collectAssigneeIssueIdentifierFromBranchName_def Let_def
    using fmt len p0 p1 by (simp add: parts)
qed

lemma parse_fails:
  "collectAssigneeIssueIdentifierFromBranchName up org branch = Inl e \<Longrightarrow>
   e = IncompatibleBranchFormat"
  unfolding collectAssigneeIssueIdentifierFromBranchName_def Let_def
  by (simp split: if_splits)

lemma parse_fails_iff:
  "(\<exists>e. collectAssigneeIssueIdentifierFromBranchName up org branch = Inl e) \<longleftrightarrow>
     gitBranchFormat org \<noteq> Some supportedFormat
     \<or> length (split CHR ''/'' branch) \<noteq> 2
     \<or> length (split CHR ''-'' (split CHR ''/'' branch ! 1)) < 2"
  unfolding collectAssigneeIssueIdentifierFromBranchName_def Let_def
  by simp

lemma ascii_toUpperCase_fix: "ascii_toUpperCase ''fix'' = ''FIX''"
  by code_simp

lemma ascii_toUpperCase_eng: "ascii_toUpperCase ''eng'' = ''ENG''"
  by code_simp

section \<open>Claims about the parser\<close>

text \<open>
  C1. Under the supported format, a branch with exactly one \<open>/\<close> and at least one \<open>-\<close>
  after it parses to the BranchSpec whose assignee is the segment before the \<open>/\<close> and
  whose issue identifier is the upper-cased first \<open>-\<close>-separated part of the second
  segment, a \<open>-\<close>, and the second part unchanged. Nothing after the second part (the
  title words) enters the result.
\<close>

theorem parse_supported_branch:
  assumes "gitBranchFormat org = Some supportedFormat"
      and "count_list branch CHR ''/'' = 1"
      and "CHR ''-'' \<in> set (segment_after CHR ''/'' branch)"
  shows "collectAssigneeIssueIdentifierFromBranchName toUpperCase org branch =
           Inr \<lparr>assignee = Some (segment_before CHR ''/'' branch),
                issueIdentifier =
                  toUpperCase (segment_before CHR ''-'' (segment_after CHR ''/'' branch))
                  @ ''-'' @
                  segment_before CHR ''-''
                    (segment_after CHR ''-'' (segment_after CHR ''/'' branch))\<rparr>"
  using assms by (rule parse_by_segments)

theorem parse_supported_branch_witness:
  "collectAssigneeIssueIdentifierFromBranchName ascii_toUpperCase
     \<lparr>gitBranchFormat = Some supportedFormat\<rparr> ''eng/eng-5-fix-the-bug'' =
   Inr \<lparr>assignee = Some ''eng'', issueIdentifier = ''ENG-5''\<rparr>"
  using parse_supported_branch [of "\<lparr>gitBranchFormat = Some supportedFormat\<rparr>"
      "''eng/eng-5-fix-the-bug''" ascii_toUpperCase]
  by (simp add: ascii_toUpperCase_eng)

text \<open>
  C5. Parsing fails, and then with \<open>IncompatibleBranchFormat\<close>, exactly when the
  configured format is not the supported one, or the branch does not have exactly one
  \<open>/\<close> (\<^verbatim>\<open>split('/')\<close> gives one segment more than there are \<open>/\<close>, so not two), or
  there is no \<open>-\<close> after the \<open>/\<close> (the second segment splits into fewer than two parts).
\<close>

theorem parse_fails_exactly_when:
  "(collectAssigneeIssueIdentifierFromBranchName toUpperCase org branch
      = Inl IncompatibleBranchFormat
    \<longleftrightarrow> gitBranchFormat org \<noteq> Some supportedFormat
        \<or> count_list branch CHR ''/'' \<noteq> 1
        \<or> CHR ''-'' \<notin> set (segment_after CHR ''/'' branch))
   \<and> (\<forall>e. collectAssigneeIssueIdentifierFromBranchName toUpperCase org branch = Inl e
          \<longrightarrow> e = IncompatibleBranchFormat)
   \<and> length (split CHR ''/'' branch) = count_list branch CHR ''/'' + 1"
proof -
  let ?r = "collectAssigneeIssueIdentifierFromBranchName toUpperCase org branch"
  let ?seg = "segment_after CHR ''/'' branch"
  have only: "\<forall>e. ?r = Inl e \<longrightarrow> e = IncompatibleBranchFormat"
    using parse_fails by blast
  have second: "count_list branch CHR ''/'' = 1 \<Longrightarrow>
                  (length (split CHR ''-'' (split CHR ''/'' branch ! 1)) < 2
                   \<longleftrightarrow> CHR ''-'' \<notin> set ?seg)"
    by (simp add: count_one_after length_split count_list_0_iff)
  have "(\<exists>e. ?r = Inl e) \<longleftrightarrow>
          gitBranchFormat org \<noteq> Some supportedFormat
          \<or> count_list branch CHR ''/'' \<noteq> 1
          \<or> CHR ''-'' \<notin> set ?seg"
    using second by (auto simp: parse_fails_iff length_split)
  moreover have "(\<exists>e. ?r = Inl e) \<longleftrightarrow> ?r = Inl IncompatibleBranchFormat"
    using only by auto
  ultimately show ?thesis
    using only by (simp add: length_split)
qed

theorem parse_fails_exactly_when_witness:
  "collectAssigneeIssueIdentifierFromBranchName ascii_toUpperCase org_supported ''main''
     = Inl IncompatibleBranchFormat
   \<and> collectAssigneeIssueIdentifierFromBranchName ascii_toUpperCase org_supported
       ''bob/hotfix'' = Inl IncompatibleBranchFormat
   \<and> collectAssigneeIssueIdentifierFromBranchName ascii_toUpperCase
       \<lparr>gitBranchFormat = Some ''{issueIdentifier}-{issueTitle}''\<rparr> ''bob/eng-42-fix''
       = Inl IncompatibleBranchFormat
   \<and> collectAssigneeIssueIdentifierFromBranchName ascii_toUpperCase org_supported
       ''bob/eng-42-fix'' \<noteq> Inl IncompatibleBranchFormat"
  using parse_fails_exactly_when [of ascii_toUpperCase org_supported "''main''"]
        parse_fails_exactly_when [of ascii_toUpperCase org_supported "''bob/hotfix''"]
        parse_fails_exactly_when [of ascii_toUpperCase
          "\<lparr>gitBranchFormat = Some ''{issueIdentifier}-{issueTitle}''\<rparr>" "''bob/eng-42-fix''"]
        parse_fails_exactly_when [of ascii_toUpperCase org_supported "''bob/eng-42-fix''"]
  by (simp add: org_supported_def supportedFormat_def)

text \<open>
  C9. The parser checks nothing about the two parts of the identifier: a branch made of any
  string \<open>a\<close> without \<open>/\<close>, a \<open>/\<close>, any two strings \<open>p0\<close> and \<open>p1\<close> without \<open>/\<close> and
  \<open>-\<close> joined by \<open>-\<close>, and nothing more or a \<open>-\<close> and further text, parses to the
  identifier made of \<open>p0\<close> upper-cased, \<open>-\<close> and \<open>p1\<close>. So \<open>user/fix-bug\<close> gives
  \<open>FIX-bug\<close>.
\<close>

theorem parse_no_shape_validation:
  assumes "gitBranchFormat org = Some supportedFormat"
      and "CHR ''/'' \<notin> set a" and "CHR ''/'' \<notin> set (p0 @ p1 @ rest)"
      and "CHR ''-'' \<notin> set p0" and "CHR ''-'' \<notin> set p1"
      and "rest = [] \<or> hd rest = CHR ''-''"
  shows "collectAssigneeIssueIdentifierFromBranchName toUpperCase org
           (a @ ''/'' @ p0 @ ''-'' @ p1 @ rest)
         = Inr \<lparr>assignee = Some a, issueIdentifier = toUpperCase p0 @ ''-'' @ p1\<rparr>"
proof -
  let ?branch = "a @ ''/'' @ p0 @ ''-'' @ p1 @ rest"
  have one: "count_list ?branch CHR ''/'' = 1"
    using assms(2,3) by (simp add: count_list_0_iff)
  have before: "segment_before CHR ''/'' ?branch = a"
    using assms(2) by (simp add: segment_before_append)
  have seg: "segment_after CHR ''/'' ?branch = p0 @ ''-'' @ p1 @ rest"
    using assms(2) by (simp add: segment_after_append)
  have first: "segment_before CHR ''-'' (p0 @ ''-'' @ p1 @ rest) = p0"
    using assms(4) by (simp add: segment_before_append)
  have after: "segment_after CHR ''-'' (p0 @ ''-'' @ p1 @ rest) = p1 @ rest"
    using assms(4) by (simp add: segment_after_append)
  have snd_part: "segment_before CHR ''-'' (p1 @ rest) = p1"
  proof (cases rest)
    case Nil
    with assms(5) show ?thesis by (simp add: segment_before_whole)
  next
    case (Cons x xs)
    with assms(6) have "rest = CHR ''-'' # xs" by simp
    with assms(5) show ?thesis by (simp add: segment_before_append)
  qed
  have "CHR ''-'' \<in> set (segment_after CHR ''/'' ?branch)"
    unfolding seg by simp
  from parse_by_segments [OF assms(1) one this, of toUpperCase]
  show ?thesis
    by (simp only: before seg first after snd_part)
qed

theorem parse_no_shape_validation_witness:
  "collectAssigneeIssueIdentifierFromBranchName ascii_toUpperCase org_supported
     ''user/fix-bug''
   = Inr \<lparr>assignee = Some ''user'', issueIdentifier = ''FIX-bug''\<rparr>"
  using parse_no_shape_validation [of org_supported "''user''" "''fix''" "''bug''" "[]"
      ascii_toUpperCase]
  by (simp add: org_supported_def ascii_toUpperCase_fix)

section \<open>Claims about the workflow advancer\<close>

lemmas promise_defs = resolve_def reject_def await_def request_def

lemmas example_defs =
  tracker_def org_supported_def issue_eng42_def issue_eng7_def issue_ops1_def
  issue_lost1_def
  team_eng_def team_ops_def state_triage_def state_ready_def state_started_def
  user_alice_def user_bob_def rejects_nothing_def args_on_create_branch_def

text \<open>
  C2. Let the tracker answer the four reads of the advancer with an issue that has a state,
  a team, and a draft state of that team. If the type of the issue's state is \<open>triage\<close>,
  \<open>backlog\<close> or \<open>unstarted\<close>, the advancer makes, after the reads, exactly one update,
  which sets \<open>stateId\<close> to the id of the draft state; for any other type it makes no
  update and returns the issue.
\<close>

theorem advancer_updates_iff_not_started:
  assumes "issues lc identifier = Some issue"
      and "issue_state issue = Some s"
      and "issue_team issue = Some t"
      and "draftWorkflowState t = Some d"
      and "\<not> rejects lc (GetIssue identifier)"
      and "\<not> rejects lc (GetIssueState (issue_id issue))"
      and "\<not> rejects lc (GetIssueTeam (issue_id issue))"
      and "\<not> rejects lc (GetTeamDraftWorkflowState (team_id t))"
  shows "maybeUpdateIssueToTeamDraftState lc identifier trace =
           (if ws_type s = ''triage'' \<or> ws_type s = ''backlog'' \<or> ws_type s = ''unstarted''
            then
              (if rejects lc (UpdateIssue (issue_id issue)
                                \<lparr>stateId = Some (ws_id d), assigneeId = None\<rparr>)
               then Inl (RequestRejected
                           (UpdateIssue (issue_id issue)
                              \<lparr>stateId = Some (ws_id d), assigneeId = None\<rparr>))
               else Inr issue,
               trace @ [GetIssue identifier, GetIssueState (issue_id issue),
                        GetIssueTeam (issue_id issue),
                        GetTeamDraftWorkflowState (team_id t),
                        UpdateIssue (issue_id issue)
                          \<lparr>stateId = Some (ws_id d), assigneeId = None\<rparr>])
            else
              (Inr issue,
               trace @ [GetIssue identifier, GetIssueState (issue_id issue),
                        GetIssueTeam (issue_id issue),
                        GetTeamDraftWorkflowState (team_id t)]))"
  unfolding maybeUpdateIssueToTeamDraftState_def lc_issue_def promise_defs
  using assms by simp

theorem advancer_updates_iff_not_started_witness:
  "maybeUpdateIssueToTeamDraftState tracker ''ENG-42'' [] =
     (Inr issue_eng42,
      [GetIssue ''ENG-42'', GetIssueState ''i-42'', GetIssueTeam ''i-42'',
       GetTeamDraftWorkflowState ''t-eng'',
       UpdateIssue ''i-42'' \<lparr>stateId = Some ''s-ready'', assigneeId = None\<rparr>])
   \<and> maybeUpdateIssueToTeamDraftState tracker ''ENG-7'' [] =
     (Inr issue_eng7,
      [GetIssue ''ENG-7'', GetIssueState ''i-7'', GetIssueTeam ''i-7'',
       GetTeamDraftWorkflowState ''t-eng''])"
  using advancer_updates_iff_not_started
          [of tracker "''ENG-42''" issue_eng42 state_triage team_eng state_ready "[]"]
        advancer_updates_iff_not_started
          [of tracker "''ENG-7''" issue_eng7 state_started team_eng state_ready "[]"]
  by (simp add: example_defs)

text \<open>
  C6. Let the tracker answer the reads of the advancer for an issue it knows. If the issue
  has no team, the advancer fails with \<open>MissingTeam\<close>; if it has a team, and the team
  has no draft state or the issue no state, it fails with
  \<open>MissingDraftStateOrIssueState\<close>. In both cases the trace holds the reads only, no
  update. The orchestrator then fails with the same error and the assignee setter makes
  no request.
\<close>

theorem advancer_precondition_failures:
  assumes "issues lc identifier = Some issue"
      and "\<not> rejects lc (GetIssue identifier)"
      and "\<not> rejects lc (GetIssueState (issue_id issue))"
      and "\<not> rejects lc (GetIssueTeam (issue_id issue))"
  shows "(issue_team issue = None \<longrightarrow>
            maybeUpdateIssueToTeamDraftState lc identifier trace =
              (Inl MissingTeam,
               trace @ [GetIssue identifier, GetIssueState (issue_id issue),
                        GetIssueTeam (issue_id issue)]))
       \<and> (\<forall>t. issue_team issue = Some t
                \<and> \<not> rejects lc (GetTeamDraftWorkflowState (team_id t))
                \<and> (draftWorkflowState t = None \<or> issue_state issue = None) \<longrightarrow>
            maybeUpdateIssueToTeamDraftState lc identifier trace =
              (Inl MissingDraftStateOrIssueState,
               trace @ [GetIssue identifier, GetIssueState (issue_id issue),
                        GetIssueTeam (issue_id issue),
                        GetTeamDraftWorkflowState (team_id t)]))
       \<and> (\<forall>e trace' spec.
            maybeUpdateIssueToTeamDraftState lc (issueIdentifier spec)
              (trace @ [GetOrganization]) = (Inl e, trace')
            \<and> \<not> rejects lc GetOrganization
            \<and> collectAssigneeIssueIdentifierFromBranchName toUpperCase (organization lc)
                branch = Inr spec \<longrightarrow>
            onCreateBranch toUpperCase lc branch trace = (Inl e, trace'))"
proof (intro conjI allI impI)
  assume "issue_team issue = None"
  then show "maybeUpdateIssueToTeamDraftState lc identifier trace =
               (Inl MissingTeam,
                trace @ [GetIssue identifier, GetIssueState (issue_id issue),
                         GetIssueTeam (issue_id issue)])"
    unfolding maybeUpdateIssueToTeamDraftState_def lc_issue_def promise_defs
    using assms by simp
next
  fix t
  assume "issue_team issue = Some t
            \<and> \<not> rejects lc (GetTeamDraftWorkflowState (team_id t))
            \<and> (draftWorkflowState t = None \<or> issue_state issue = None)"
  then show "maybeUpdateIssueToTeamDraftState lc identifier trace =
               (Inl MissingDraftStateOrIssueState,
                trace @ [GetIssue identifier, GetIssueState (issue_id issue),
                         GetIssueTeam (issue_id issue),
                         GetTeamDraftWorkflowState (team_id t)])"
    unfolding maybeUpdateIssueToTeamDraftState_def lc_issue_def promise_defs
    using assms by (auto split: option.splits)
next
  fix e trace' spec
  assume "maybeUpdateIssueToTeamDraftState lc (issueIdentifier spec)
            (trace @ [GetOrganization]) = (Inl e, trace')
          \<and> \<not> rejects lc GetOrganization
          \<and> collectAssigneeIssueIdentifierFromBranchName toUpperCase (organization lc)
              branch = Inr spec"
  then show "onCreateBranch toUpperCase lc branch trace = (Inl e, trace')"
    unfolding onCreateBranch_def getCurrentOrganization_def promise_defs
    by simp
qed

theorem advancer_precondition_failures_witness:
  "maybeUpdateIssueToTeamDraftState tracker ''LOST-1'' [] =
     (Inl MissingTeam, [GetIssue ''LOST-1'', GetIssueState ''i-0'', GetIssueTeam ''i-0''])
   \<and> maybeUpdateIssueToTeamDraftState tracker ''OPS-1'' [] =
     (Inl MissingDraftStateOrIssueState,
      [GetIssue ''OPS-1'', GetIssueState ''i-1'', GetIssueTeam ''i-1'',
       GetTeamDraftWorkflowState ''t-ops''])
   \<and> onCreateBranch ascii_toUpperCase tracker ''bob/ops-1-fix'' [] =
     (Inl MissingDraftStateOrIssueState,
      [GetOrganization, GetIssue ''OPS-1'', GetIssueState ''i-1'', GetIssueTeam ''i-1'',
       GetTeamDraftWorkflowState ''t-ops''])"
proof -
  have ops: "ascii_toUpperCase ''ops'' = ''OPS''"
    by code_simp
  have parsed:
    "collectAssigneeIssueIdentifierFromBranchName ascii_toUpperCase (organization tracker)
       ''bob/ops-1-fix'' = Inr \<lparr>assignee = Some ''bob'', issueIdentifier = ''OPS-1''\<rparr>"
    by (simp add: collectAssigneeIssueIdentifierFromBranchName_def example_defs ops)
  note lost = advancer_precondition_failures
                [of tracker "''LOST-1''" issue_lost1 "[]" ascii_toUpperCase "''bob/ops-1-fix''"]
  note ops1 = advancer_precondition_failures
                [of tracker "''OPS-1''" issue_ops1 "[]" ascii_toUpperCase "''bob/ops-1-fix''"]
  have a: "maybeUpdateIssueToTeamDraftState tracker ''LOST-1'' [] =
             (Inl MissingTeam,
              [GetIssue ''LOST-1'', GetIssueState ''i-0'', GetIssueTeam ''i-0''])"
    using lost by (simp add: example_defs)
  have b: "\<And>trace. maybeUpdateIssueToTeamDraftState tracker ''OPS-1'' trace =
             (Inl MissingDraftStateOrIssueState,
              trace @ [GetIssue ''OPS-1'', GetIssueState ''i-1'', GetIssueTeam ''i-1'',
                       GetTeamDraftWorkflowState ''t-ops''])"
    using advancer_precondition_failures [of tracker "''OPS-1''" issue_ops1]
    by (simp add: example_defs)
  have "\<forall>e trace' spec.
          maybeUpdateIssueToTeamDraftState tracker (issueIdentifier spec)
            ([] @ [GetOrganization]) = (Inl e, trace')
          \<and> \<not> rejects tracker GetOrganization
          \<and> collectAssigneeIssueIdentifierFromBranchName ascii_toUpperCase
              (organization tracker) ''bob/ops-1-fix'' = Inr spec \<longrightarrow>
          onCreateBranch ascii_toUpperCase tracker ''bob/ops-1-fix'' [] = (Inl e, trace')"
    using ops1 by (simp add: example_defs)
  then have c: "onCreateBranch ascii_toUpperCase tracker ''bob/ops-1-fix'' [] =
                  (Inl MissingDraftStateOrIssueState,
                   [GetOrganization, GetIssue ''OPS-1'', GetIssueState ''i-1'',
                    GetIssueTeam ''i-1'', GetTeamDraftWorkflowState ''t-ops''])"
    using parsed b [of "[GetOrganization]"]
    by (simp add: tracker_def rejects_nothing_def)
  from a b [of "[]"] c show ?thesis by simp
qed

section \<open>Claims about the assignee setter\<close>

text \<open>
  C3. When the BranchSpec has no assignee, or the issue already has one (whatever the
  BranchSpec's assignee), the setter extends the trace by nothing or by the one read of
  the issue's assignee: no user lookup, no update. It returns the issue as it was, unless
  that read is rejected.
\<close>

theorem setter_keeps_existing_assignment:
  assumes "assigneeName = None \<or> issue_assignee issue \<noteq> None"
  shows "\<exists>calls.
           snd (maybeSetIssueAssignee lc issue assigneeName trace) = trace @ calls
           \<and> (calls = [] \<or> calls = [GetIssueAssignee (issue_id issue)])
           \<and> (\<forall>c \<in> set calls. \<not> is_user_lookup c \<and> \<not> is_update c)
           \<and> (fst (maybeSetIssueAssignee lc issue assigneeName trace) = Inr issue
                \<or> calls \<noteq> [] \<and> rejects lc (GetIssueAssignee (issue_id issue))
                  \<and> fst (maybeSetIssueAssignee lc issue assigneeName trace) =
                      Inl (RequestRejected (GetIssueAssignee (issue_id issue))))"
proof (cases "assigneeName = None \<or> assigneeName = Some []")
  case True
  then have "maybeSetIssueAssignee lc issue assigneeName trace = (Inr issue, trace)"
    by (auto simp: maybeSetIssueAssignee_def promise_defs)
  then show ?thesis by simp
next
  case False
  with assms obtain name u where
    n: "assigneeName = Some name" "name \<noteq> []" and u: "issue_assignee issue = Some u"
    by auto
  have "maybeSetIssueAssignee lc issue assigneeName trace =
          (if rejects lc (GetIssueAssignee (issue_id issue))
           then Inl (RequestRejected (GetIssueAssignee (issue_id issue))) else Inr issue,
           trace @ [GetIssueAssignee (issue_id issue)])"
    using n u by (simp add: maybeSetIssueAssignee_def promise_defs)
  then show ?thesis by simp
qed

theorem setter_keeps_existing_assignment_witness:
  "maybeSetIssueAssignee tracker issue_eng7 (Some ''bob'') [] =
     (Inr issue_eng7, [GetIssueAssignee ''i-7''])
   \<and> maybeSetIssueAssignee tracker issue_eng42 None [] = (Inr issue_eng42, [])"
proof -
  from setter_keeps_existing_assignment [of "Some ''bob''" issue_eng7 tracker "[]"]
  obtain calls where
    "snd (maybeSetIssueAssignee tracker issue_eng7 (Some ''bob'') []) = [] @ calls"
    "calls = [] \<or> calls = [GetIssueAssignee (issue_id issue_eng7)]"
    "fst (maybeSetIssueAssignee tracker issue_eng7 (Some ''bob'') []) = Inr issue_eng7
     \<or> calls \<noteq> [] \<and> rejects tracker (GetIssueAssignee (issue_id issue_eng7))
       \<and> fst (maybeSetIssueAssignee tracker issue_eng7 (Some ''bob'') []) =
           Inl (RequestRejected (GetIssueAssignee (issue_id issue_eng7)))"
    by (auto simp: issue_eng7_def)
  moreover have "maybeSetIssueAssignee tracker issue_eng7 (Some ''bob'') [] =
                   (Inr issue_eng7, [GetIssueAssignee ''i-7''])"
    by (simp add: maybeSetIssueAssignee_def promise_defs example_defs)
  moreover have "maybeSetIssueAssignee tracker issue_eng42 None [] = (Inr issue_eng42, [])"
    by (simp add: maybeSetIssueAssignee_def promise_defs)
  ultimately show ?thesis by simp
qed

text \<open>
  C4, as the claim states it, fails for the empty name: the setter returns at once, so with
  no user of that name it does not fail with \<open>AssigneeResolutionFailed\<close>.
\<close>

theorem setter_empty_name_counterexample:
  "issue_assignee issue_eng42 = None
   \<and> users tracker = [user_alice, user_bob]
   \<and> displayName user_alice \<noteq> [] \<and> displayName user_bob \<noteq> []
   \<and> maybeSetIssueAssignee tracker issue_eng42 (Some []) [] = (Inr issue_eng42, [])
   \<and> fst (maybeSetIssueAssignee tracker issue_eng42 (Some []) [])
       \<noteq> Inl AssigneeResolutionFailed"
  by (simp add: maybeSetIssueAssignee_def promise_defs example_defs)

text \<open>
  C4, amended. For an unassigned issue and a name that is not empty, when the tracker
  answers the read of the assignee and the user query: if exactly one user has that
  display name, the setter makes one update, which sets \<open>assigneeId\<close> to that user's id;
  if no user or more than one has it, the setter fails with \<open>AssigneeResolutionFailed\<close>
  and the trace holds no update.
\<close>

theorem setter_resolves_unique_user:
  assumes "name \<noteq> []"
      and "issue_assignee issue = None"
      and "\<not> rejects lc (GetIssueAssignee (issue_id issue))"
      and "\<not> rejects lc (QueryUsers name)"
  shows "(\<forall>u. filter (\<lambda>u. displayName u = name) (users lc) = [u] \<longrightarrow>
            maybeSetIssueAssignee lc issue (Some name) trace =
              (if rejects lc (UpdateIssue (issue_id issue)
                                \<lparr>stateId = None, assigneeId = Some (user_id u)\<rparr>)
               then Inl (RequestRejected
                           (UpdateIssue (issue_id issue)
                              \<lparr>stateId = None, assigneeId = Some (user_id u)\<rparr>))
               else Inr issue,
               trace @ [GetIssueAssignee (issue_id issue), QueryUsers name,
                        UpdateIssue (issue_id issue)
                          \<lparr>stateId = None, assigneeId = Some (user_id u)\<rparr>]))
       \<and> (length (filter (\<lambda>u. displayName u = name) (users lc)) \<noteq> 1 \<longrightarrow>
            maybeSetIssueAssignee lc issue (Some name) trace =
              (Inl AssigneeResolutionFailed,
               trace @ [GetIssueAssignee (issue_id issue), QueryUsers name]))"
  unfolding maybeSetIssueAssignee_def getUserFromDisplayName_def
    lc_users_by_displayName_def promise_defs
  using assms by simp

theorem setter_resolves_unique_user_witness:
  "maybeSetIssueAssignee tracker issue_eng42 (Some ''bob'') [] =
     (Inr issue_eng42,
      [GetIssueAssignee ''i-42'', QueryUsers ''bob'',
       UpdateIssue ''i-42'' \<lparr>stateId = None, assigneeId = Some ''u-bob''\<rparr>])
   \<and> maybeSetIssueAssignee tracker issue_eng42 (Some ''carol'') [] =
     (Inl AssigneeResolutionFailed, [GetIssueAssignee ''i-42'', QueryUsers ''carol''])
   \<and> maybeSetIssueAssignee (tracker\<lparr>users := [user_bob, user_alice, user_bob]\<rparr>)
       issue_eng42 (Some ''bob'') [] =
     (Inl AssigneeResolutionFailed, [GetIssueAssignee ''i-42'', QueryUsers ''bob''])"
  using setter_resolves_unique_user [of "''bob''" issue_eng42 tracker "[]"]
        setter_resolves_unique_user [of "''carol''" issue_eng42 tracker "[]"]
        setter_resolves_unique_user
          [of "''bob''" issue_eng42 "tracker\<lparr>users := [user_bob, user_alice, user_bob]\<rparr>" "[]"]
  by (simp add: example_defs)

text \<open>
  C10. A BranchSpec that the parser returns always has an assignee, the segment of the
  branch before its \<open>/\<close>; for the branch \<open>/eng-5-fix\<close> it is the empty string. Given the
  empty string the setter does what it does given no assignee: it returns the issue and
  makes no request.
\<close>

theorem parsed_assignee_never_null:
  "(\<forall>spec. collectAssigneeIssueIdentifierFromBranchName toUpperCase org branch = Inr spec
       \<longrightarrow> assignee spec = Some (segment_before CHR ''/'' branch))
   \<and> collectAssigneeIssueIdentifierFromBranchName ascii_toUpperCase org_supported
       ''/eng-5-fix'' = Inr \<lparr>assignee = Some [], issueIdentifier = ''ENG-5''\<rparr>
   \<and> maybeSetIssueAssignee lc issue (Some []) trace = (Inr issue, trace)
   \<and> maybeSetIssueAssignee lc issue (Some []) trace
       = maybeSetIssueAssignee lc issue None trace"
proof -
  have "\<forall>spec. collectAssigneeIssueIdentifierFromBranchName toUpperCase org branch
                 = Inr spec
          \<longrightarrow> assignee spec = Some (segment_before CHR ''/'' branch)"
    unfolding collectAssigneeIssueIdentifierFromBranchName_def Let_def
    by (auto simp: split_first split: if_splits)
  moreover have "collectAssigneeIssueIdentifierFromBranchName ascii_toUpperCase
                   org_supported ''/eng-5-fix''
                 = Inr \<lparr>assignee = Some [], issueIdentifier = ''ENG-5''\<rparr>"
    by (simp add: collectAssigneeIssueIdentifierFromBranchName_def org_supported_def
          ascii_toUpperCase_eng)
  moreover have "maybeSetIssueAssignee lc issue (Some []) trace = (Inr issue, trace)"
    by (simp add: maybeSetIssueAssignee_def promise_defs)
  moreover have "maybeSetIssueAssignee lc issue None trace = (Inr issue, trace)"
    by (simp add: maybeSetIssueAssignee_def promise_defs)
  ultimately show ?thesis by simp
qed

theorem parsed_assignee_never_null_witness:
  "assignee \<lparr>assignee = Some [], issueIdentifier = ''ENG-5''\<rparr>
     = Some (segment_before CHR ''/'' ''/eng-5-fix'')
   \<and> maybeSetIssueAssignee tracker issue_eng42 (Some []) [] = (Inr issue_eng42, [])"
  using parsed_assignee_never_null
          [of ascii_toUpperCase org_supported "''/eng-5-fix''" tracker issue_eng42 "[]"]
  by simp

section \<open>Claims about the orchestrator and the entry point\<close>






text \<open>
  C8. With no positional command, or with more than one, \<^verbatim>\<open>main\<close> ends the process with
  exit code 1 and the trace is as it was: no client was constructed and no request made.
\<close>

theorem main_exits_without_single_command:
  "length (positional args) \<noteq> 1 \<Longrightarrow>
   main toUpperCase apiKey linear args trace = (Exit 1, trace)"
  by (simp add: main_def)

theorem main_exits_without_single_command_witness:
  "main ascii_toUpperCase (Some ''key'') tracker
     \<lparr>positional = [], branchName = None\<rparr> [] = (Exit 1, [])
   \<and> main ascii_toUpperCase (Some ''key'') tracker
       \<lparr>positional = [''on-create-branch'', ''on-create-branch''],
        branchName = Some ''bob/eng-42-refactor-login''\<rparr> [] = (Exit 1, [])"
  using main_exits_without_single_command
          [of "\<lparr>positional = [], branchName = None\<rparr>" ascii_toUpperCase "Some ''key''"
              tracker "[]"]
        main_exits_without_single_command
          [of "\<lparr>positional = [''on-create-branch'', ''on-create-branch''],
                branchName = Some ''bob/eng-42-refactor-login''\<rparr>"
              ascii_toUpperCase "Some ''key''" tracker "[]"]
  by simp




end
